theory Spec2Isabelle
  imports Complex_Main
begin

section \<open>The Mohr stress circle program\<close>

text \<open>
  A shallow embedding of \<^verbatim>\<open>mohr_stress_circle.py\<close>. The class
  \<^verbatim>\<open>mohr_stress_circle\<close> stores three numbers, computes the centre and the
  radius of the two-dimensional Mohr circle together with the principal stresses,
  prints them rounded to two decimals and plots the circle.

  The formulas of the program are stated over the mathematical reals, without the
  rounding of binary floating point: in that model the division and the square root
  have an explicit error result, because in HOL \<open>x / 0 = 0\<close> and \<open>sqrt\<close> is defined
  on negative numbers too. The range of Python's numbers, which decides whether the
  computation raises, is modelled separately on integers and floats.
\<close>

subsection \<open>Arithmetic with explicit failure\<close>

datatype error = ZeroDivisionError | SqrtDomainError | OverflowError

text \<open>Python's \<^verbatim>\<open>a / b\<close>.\<close>

definition truediv :: "real \<Rightarrow> real \<Rightarrow> error + real" where
  "truediv a b = (if b = 0 then Inl ZeroDivisionError else Inr (a / b))"

text \<open>\<^verbatim>\<open>np.sqrt\<close>, whose result is not a number below zero.\<close>

definition np_sqrt :: "real \<Rightarrow> error + real" where
  "np_sqrt x = (if x < 0 then Inl SqrtDomainError else Inr (sqrt x))"

subsection \<open>The object and its derived values\<close>

text \<open>The attributes set by \<^verbatim>\<open>__init__\<close> from its arguments.\<close>

record mohr_stress_circle =
  sigmax :: real
  sigmay :: real
  shear_stress :: real

text \<open>
  The attributes set by \<^verbatim>\<open>stress_state\<close>, which returns nothing itself: the model
  returns the attributes. The centre is the two-element array
  \<^verbatim>\<open>np.array([(sigmax + sigmay) / 2, 0])\<close>; \<^verbatim>\<open>center[0]\<close> is \<open>fst\<close> and
  \<^verbatim>\<open>center[1]\<close> is \<open>snd\<close>.
\<close>

record stress_state_values =
  center :: "real \<times> real"
  radius :: real
  max_normal_stress :: real
  min_normal_stress :: real
  max_shear_stress :: real

definition stress_state :: "mohr_stress_circle \<Rightarrow> error + stress_state_values" where
  "stress_state self =
     (case truediv (sigmax self + sigmay self) 2 of
        Inl e \<Rightarrow> Inl e
      | Inr m \<Rightarrow>
         (case truediv (sigmax self - sigmay self) 2 of
            Inl e \<Rightarrow> Inl e
          | Inr h \<Rightarrow>
             (case np_sqrt (h\<^sup>2 + (shear_stress self)\<^sup>2) of
                Inl e \<Rightarrow> Inl e
              | Inr r \<Rightarrow>
                 (let c = (m, 0)
                  in Inr \<lparr>center = c,
                          radius = r,
                          max_normal_stress = fst c + r,
                          min_normal_stress = fst c - r,
                          max_shear_stress = r\<rparr>))))"

subsection \<open>The report\<close>

text \<open>
  Rounding to the nearest integer, a tie going to the even neighbour, as
  \<^verbatim>\<open>np.round\<close> and Python's \<^verbatim>\<open>round\<close> do; then rounding to \<open>d\<close> decimals.
\<close>

definition rint :: "real \<Rightarrow> int" where
  "rint x =
     (let f = \<lfloor>x\<rfloor>; d = x - of_int f
      in if d < 1 / 2 then f
         else if 1 / 2 < d then f + 1
         else if even f then f else f + 1)"

definition np_round :: "real \<Rightarrow> nat \<Rightarrow> real" where
  "np_round x d = of_int (rint (x * 10 ^ d)) / 10 ^ d"

text \<open>
  \<^verbatim>\<open>disp_stress_state\<close> prints one line per entry of \<^verbatim>\<open>initial_values\<close> and of
  \<^verbatim>\<open>stress_state_values\<close>; the model returns the labels with the rounded numbers,
  the centre being printed as an array of two numbers.
\<close>

definition disp_stress_state ::
    "mohr_stress_circle \<Rightarrow> stress_state_values \<Rightarrow> (string \<times> real list) list" where
  "disp_stress_state self v =
     [(''Sigma X'', [np_round (sigmax self) 2]),
      (''Sigma Y'', [np_round (sigmay self) 2]),
      (''Shear Stress'', [np_round (shear_stress self) 2]),
      (''Center'', [np_round (fst (center v)) 2, np_round (snd (center v)) 2]),
      (''Radius'', [np_round (radius v) 2]),
      (''Maximum normal stress'', [np_round (max_normal_stress v) 2]),
      (''Minimum normal stress'', [np_round (min_normal_stress v) 2]),
      (''Maximum shear stress'', [np_round (max_shear_stress v) 2])]"

subsection \<open>The plot\<close>

text \<open>
  \<^verbatim>\<open>np.linspace(start, stop, num)\<close>: \<open>num\<close> evenly spaced samples of the closed
  interval from \<open>start\<close> to \<open>stop\<close>.
\<close>

definition linspace :: "real \<Rightarrow> real \<Rightarrow> nat \<Rightarrow> real list" where
  "linspace start stop num =
     (if num = 0 then []
      else if num = 1 then [start]
      else map (\<lambda>i. start + real i * ((stop - start) / real (num - 1))) [0..<num])"

text \<open>
  The data handed to the two \<^verbatim>\<open>axes.plot\<close> calls of \<^verbatim>\<open>plot_msc\<close>: the
  coordinates of the circle, and the coordinates of the red line through three points.
\<close>

record msc_plot =
  sigmapts :: "real list"
  taupts :: "real list"
  line_sigma :: "real list"
  line_tau :: "real list"

definition plot_msc :: "mohr_stress_circle \<Rightarrow> stress_state_values \<Rightarrow> msc_plot" where
  "plot_msc self v =
     (let radians = map (\<lambda>d. d * (2 * pi / 360)) (linspace 0 360 361)
      in \<lparr>sigmapts = map (\<lambda>a. fst (center v) + radius v * cos a) radians,
          taupts = map (\<lambda>a. radius v * sin a) radians,
          line_sigma = [sigmax self, fst (center v), sigmay self],
          line_tau = [shear_stress self, snd (center v), - shear_stress self]\<rparr>)"

text \<open>The points a plot call draws: its two coordinate lists taken together.\<close>

definition circle_points :: "msc_plot \<Rightarrow> (real \<times> real) list" where
  "circle_points p = zip (sigmapts p) (taupts p)"

definition line_points :: "msc_plot \<Rightarrow> (real \<times> real) list" where
  "line_points p = zip (line_sigma p) (line_tau p)"

text \<open>The Euclidean distance of two points of the plane of normal and shear stress.\<close>

definition distance :: "real \<times> real \<Rightarrow> real \<times> real \<Rightarrow> real" where
  "distance p q = sqrt ((fst p - fst q)\<^sup>2 + (snd p - snd q)\<^sup>2)"

subsection \<open>The constructor and the example of the script\<close>

text \<open>
  \<^verbatim>\<open>__init__\<close> stores the arguments, then calls \<^verbatim>\<open>stress_state\<close>,
  \<^verbatim>\<open>disp_stress_state\<close> and \<^verbatim>\<open>plot_msc\<close> in that order.
\<close>

definition init ::
    "real \<Rightarrow> real \<Rightarrow> real \<Rightarrow>
     error + (stress_state_values \<times> (string \<times> real list) list \<times> msc_plot)" where
  "init sx sy t =
     (let self = \<lparr>sigmax = sx, sigmay = sy, shear_stress = t\<rparr>
      in case stress_state self of
           Inl e \<Rightarrow> Inl e
         | Inr v \<Rightarrow> Inr (v, disp_stress_state self v, plot_msc self v))"

definition circle ::
    "error + (stress_state_values \<times> (string \<times> real list) list \<times> msc_plot)" where
  "circle = init 90 (- 60) 20"

subsection \<open>The computation on Python numbers\<close>

text \<open>
  The arguments of the constructor are Python numbers: an \<^verbatim>\<open>int\<close> is unbounded, a
  \<^verbatim>\<open>float\<close> is a finite value of limited range, an infinity or nan. The
  following model of \<^verbatim>\<open>stress_state\<close> keeps the range and ignores the rounding: a
  finite float carries its exact real value, and a result leaves the range when its
  magnitude reaches \<open>2 ^ 1024 - 2 ^ 970\<close>, the least magnitude that rounds to an
  infinity. Where the result of an operation leaves the range, Python either raises
  \<^verbatim>\<open>OverflowError\<close> or continues silently with an infinity, depending on the
  operation.
\<close>

datatype pyfloat = Fin real | PInf | NInf | NaN

datatype pynum = PyInt int | PyFloat pyfloat

definition overflows :: "real \<Rightarrow> bool" where
  "overflows x = (2 ^ 1024 - 2 ^ 970 \<le> \<bar>x\<bar>)"

text \<open>The float nearest to a real, an infinity beyond the range.\<close>

definition to_float :: "real \<Rightarrow> pyfloat" where
  "to_float x = (if overflows x then (if 0 < x then PInf else NInf) else Fin x)"

text \<open>
  Sum, difference and quotient of floats, as IEEE 754 defines them: they never raise.
  The quotient is needed for a finite divisor other than zero only.
\<close>

fun float_neg :: "pyfloat \<Rightarrow> pyfloat" where
  "float_neg (Fin a) = Fin (- a)"
| "float_neg PInf = NInf"
| "float_neg NInf = PInf"
| "float_neg NaN = NaN"

fun float_add :: "pyfloat \<Rightarrow> pyfloat \<Rightarrow> pyfloat" where
  "float_add (Fin a) (Fin b) = to_float (a + b)"
| "float_add NaN y = NaN"
| "float_add x NaN = NaN"
| "float_add PInf NInf = NaN"
| "float_add NInf PInf = NaN"
| "float_add PInf y = PInf"
| "float_add x PInf = PInf"
| "float_add NInf y = NInf"
| "float_add x NInf = NInf"

definition float_sub :: "pyfloat \<Rightarrow> pyfloat \<Rightarrow> pyfloat" where
  "float_sub x y = float_add x (float_neg y)"

fun float_div :: "pyfloat \<Rightarrow> real \<Rightarrow> pyfloat" where
  "float_div (Fin a) d = to_float (a / d)"
| "float_div PInf d = (if 0 < d then PInf else NInf)"
| "float_div NInf d = (if 0 < d then NInf else PInf)"
| "float_div NaN d = NaN"

text \<open>
  The conversion of an \<^verbatim>\<open>int\<close> operand in arithmetic with a float raises
  \<^verbatim>\<open>OverflowError\<close> when the integer is beyond the range of a float.
\<close>

definition int_to_float :: "int \<Rightarrow> error + pyfloat" where
  "int_to_float i = (if overflows (of_int i) then Inl OverflowError else Inr (Fin (of_int i)))"

fun as_float :: "pynum \<Rightarrow> error + pyfloat" where
  "as_float (PyInt i) = int_to_float i"
| "as_float (PyFloat x) = Inr x"

text \<open>
  Python's \<^verbatim>\<open>a + b\<close> and \<^verbatim>\<open>a - b\<close>: exact on two integers, otherwise the
  float operation on the operands converted to float.
\<close>

fun py_add :: "pynum \<Rightarrow> pynum \<Rightarrow> error + pynum" where
  "py_add (PyInt i) (PyInt j) = Inr (PyInt (i + j))"
| "py_add x y =
     (case as_float x of
        Inl e \<Rightarrow> Inl e
      | Inr a \<Rightarrow> (case as_float y of Inl e \<Rightarrow> Inl e | Inr b \<Rightarrow> Inr (PyFloat (float_add a b))))"

fun py_sub :: "pynum \<Rightarrow> pynum \<Rightarrow> error + pynum" where
  "py_sub (PyInt i) (PyInt j) = Inr (PyInt (i - j))"
| "py_sub x y =
     (case as_float x of
        Inl e \<Rightarrow> Inl e
      | Inr a \<Rightarrow> (case as_float y of Inl e \<Rightarrow> Inl e | Inr b \<Rightarrow> Inr (PyFloat (float_sub a b))))"

text \<open>
  Python's \<^verbatim>\<open>a / d\<close> for an integer divisor \<open>d\<close>, the result being a float. The
  quotient of two integers raises \<^verbatim>\<open>OverflowError\<close> when it is beyond the range of
  a float; the quotient of a float by an integer is the float quotient.
\<close>

fun py_truediv :: "pynum \<Rightarrow> int \<Rightarrow> error + pyfloat" where
  "py_truediv (PyInt i) d =
     (if d = 0 then Inl ZeroDivisionError
      else if overflows (of_int i / of_int d) then Inl OverflowError
      else Inr (Fin (of_int i / of_int d)))"
| "py_truediv (PyFloat x) d =
     (case int_to_float d of
        Inl e \<Rightarrow> Inl e
      | Inr _ \<Rightarrow> if d = 0 then Inl ZeroDivisionError else Inr (float_div x (of_int d)))"

text \<open>
  Python's \<^verbatim>\<open>a ** 2\<close>: exact on an integer; on a finite float it raises
  \<^verbatim>\<open>OverflowError\<close> when the square is beyond the range of a float.
\<close>

fun float_pow2 :: "pyfloat \<Rightarrow> error + pyfloat" where
  "float_pow2 (Fin a) = (if overflows (a\<^sup>2) then Inl OverflowError else Inr (Fin (a\<^sup>2)))"
| "float_pow2 PInf = Inr PInf"
| "float_pow2 NInf = Inr PInf"
| "float_pow2 NaN = Inr NaN"

fun py_pow2 :: "pynum \<Rightarrow> error + pynum" where
  "py_pow2 (PyInt i) = Inr (PyInt (i\<^sup>2))"
| "py_pow2 (PyFloat x) =
     (case float_pow2 x of Inl e \<Rightarrow> Inl e | Inr y \<Rightarrow> Inr (PyFloat y))"

text \<open>
  \<^verbatim>\<open>np.sqrt\<close> of a float does not raise: outside its domain the result is nan.
\<close>

fun np_sqrt_float :: "pyfloat \<Rightarrow> pyfloat" where
  "np_sqrt_float (Fin a) = (if a < 0 then NaN else Fin (sqrt a))"
| "np_sqrt_float PInf = PInf"
| "np_sqrt_float NInf = NaN"
| "np_sqrt_float NaN = NaN"

text \<open>The domain of the square root among the floats.\<close>

fun in_sqrt_domain :: "pyfloat \<Rightarrow> bool" where
  "in_sqrt_domain (Fin a) = (0 \<le> a)"
| "in_sqrt_domain PInf = True"
| "in_sqrt_domain NInf = False"
| "in_sqrt_domain NaN = False"

text \<open>
  The argument of \<^verbatim>\<open>np.sqrt\<close> on line 49,
  \<^verbatim>\<open>((sigmax - sigmay) / 2)**2 + shear_stress**2\<close>, evaluated from left to right.
  The half difference is a float, so that its square is a float power, and the square
  of the shear stress is converted to float for the sum when it is an integer.
\<close>

definition sqrt_argument :: "pynum \<Rightarrow> pynum \<Rightarrow> pynum \<Rightarrow> error + pyfloat" where
  "sqrt_argument sx sy t =
     (case py_sub sx sy of
        Inl e \<Rightarrow> Inl e
      | Inr d \<Rightarrow>
         (case py_truediv d 2 of
            Inl e \<Rightarrow> Inl e
          | Inr h \<Rightarrow>
             (case float_pow2 h of
                Inl e \<Rightarrow> Inl e
              | Inr hsq \<Rightarrow>
                 (case py_pow2 t of
                    Inl e \<Rightarrow> Inl e
                  | Inr tsq \<Rightarrow>
                     (case as_float tsq of
                        Inl e \<Rightarrow> Inl e
                      | Inr tf \<Rightarrow> Inr (float_add hsq tf))))))"

text \<open>
  \<^verbatim>\<open>stress_state\<close> on Python numbers, for an object with the attributes
  \<open>sx\<close>, \<open>sy\<close> and \<open>t\<close>: line 48, then line 49, then lines 52 to 54, whose
  \<^verbatim>\<open>np.add\<close> and \<^verbatim>\<open>np.subtract\<close> are the float operations.
\<close>

record stress_state_floats =
  center_f :: "pyfloat \<times> pyfloat"
  radius_f :: pyfloat
  max_normal_stress_f :: pyfloat
  min_normal_stress_f :: pyfloat
  max_shear_stress_f :: pyfloat

definition stress_state_py :: "pynum \<Rightarrow> pynum \<Rightarrow> pynum \<Rightarrow> error + stress_state_floats" where
  "stress_state_py sx sy t =
     (case py_add sx sy of
        Inl e \<Rightarrow> Inl e
      | Inr s \<Rightarrow>
         (case py_truediv s 2 of
            Inl e \<Rightarrow> Inl e
          | Inr m \<Rightarrow>
             (case sqrt_argument sx sy t of
                Inl e \<Rightarrow> Inl e
              | Inr a \<Rightarrow>
                 (let c = (m, Fin 0); r = np_sqrt_float a
                  in Inr \<lparr>center_f = c,
                          radius_f = r,
                          max_normal_stress_f = float_add (fst c) r,
                          min_normal_stress_f = float_sub (fst c) r,
                          max_shear_stress_f = r\<rparr>))))"

text \<open>
  The real value of an integer or of a finite float, and the numbers of magnitude at
  most \<open>10 ^ 150\<close>, whose squares are within the range of a float.
\<close>

fun real_of :: "pynum \<Rightarrow> real" where
  "real_of (PyInt i) = of_int i"
| "real_of (PyFloat (Fin a)) = a"
| "real_of (PyFloat x) = 0"

fun is_finite :: "pynum \<Rightarrow> bool" where
  "is_finite (PyInt i) = True"
| "is_finite (PyFloat (Fin a)) = True"
| "is_finite (PyFloat x) = False"

definition in_range :: "pynum \<Rightarrow> bool" where
  "in_range x = (is_finite x \<and> \<bar>real_of x\<bar> \<le> 10 ^ 150)"

section \<open>Properties of the computation\<close>

lemma sqrt_arg_nonneg: "0 \<le> ((a - b) / 2)\<^sup>2 + (t::real)\<^sup>2"
  by simp

lemma stress_state_Inr:
  "stress_state self =
     Inr \<lparr>center = ((sigmax self + sigmay self) / 2, 0),
          radius = sqrt (((sigmax self - sigmay self) / 2)\<^sup>2 + (shear_stress self)\<^sup>2),
          max_normal_stress = (sigmax self + sigmay self) / 2
            + sqrt (((sigmax self - sigmay self) / 2)\<^sup>2 + (shear_stress self)\<^sup>2),
          min_normal_stress = (sigmax self + sigmay self) / 2
            - sqrt (((sigmax self - sigmay self) / 2)\<^sup>2 + (shear_stress self)\<^sup>2),
          max_shear_stress =
            sqrt (((sigmax self - sigmay self) / 2)\<^sup>2 + (shear_stress self)\<^sup>2)\<rparr>"
proof -
  have "\<not> ((sigmax self - sigmay self) / 2)\<^sup>2 + (shear_stress self)\<^sup>2 < 0"
    using sqrt_arg_nonneg [of "sigmax self" "sigmay self" "shear_stress self"] by linarith
  then show ?thesis
    by (simp add: stress_state_def truediv_def np_sqrt_def)
qed

text \<open>
  C1: for all inputs the computation returns, and the radius it returns is
  \<open>sqrt (((sigmax - sigmay) / 2)\<^sup>2 + shear\<^sup>2)\<close>, which is not negative.
\<close>

theorem radius_formula_nonneg:
  "\<exists>v. stress_state self = Inr v
     \<and> radius v = sqrt (((sigmax self - sigmay self) / 2)\<^sup>2 + (shear_stress self)\<^sup>2)
     \<and> 0 \<le> radius v"
  by (simp add: stress_state_Inr)

text \<open>
  C2: the centre of the circle is the point \<open>((sigmax + sigmay) / 2, 0)\<close>: its
  normal-stress coordinate is the mean of the two normal stresses and its shear
  coordinate is \<open>0\<close>.
\<close>

theorem center_formula:
  "\<exists>v. stress_state self = Inr v
     \<and> center v = ((sigmax self + sigmay self) / 2, 0)
     \<and> fst (center v) = (sigmax self + sigmay self) / 2
     \<and> snd (center v) = 0"
  by (simp add: stress_state_Inr)

text \<open>
  C3: the maximum normal stress is the centre plus the radius, the minimum normal stress
  is the centre minus the radius, and the maximum shear stress is the radius.
\<close>

theorem principal_stresses_formula:
  "\<exists>v. stress_state self = Inr v
     \<and> max_normal_stress v = fst (center v) + radius v
     \<and> min_normal_stress v = fst (center v) - radius v
     \<and> max_shear_stress v = radius v"
  by (simp add: stress_state_Inr)

text \<open>
  C6: the maximum and the minimum normal stress differ by twice the radius.
\<close>

theorem principal_difference:
  "\<exists>v. stress_state self = Inr v
     \<and> max_normal_stress v - min_normal_stress v = 2 * radius v"
  by (simp add: stress_state_Inr)

text \<open>
  C9: negating the shear stress changes none of the radius, the maximum normal stress,
  the minimum normal stress and the maximum shear stress.
\<close>

theorem shear_sign_irrelevant:
  "\<exists>v v'. stress_state self = Inr v
     \<and> stress_state (self\<lparr>shear_stress := - shear_stress self\<rparr>) = Inr v'
     \<and> radius v' = radius v
     \<and> max_normal_stress v' = max_normal_stress v
     \<and> min_normal_stress v' = min_normal_stress v
     \<and> max_shear_stress v' = max_shear_stress v"
  by (simp add: stress_state_Inr)

section \<open>The range of Python numbers\<close>

lemma float_range: "(10::real) ^ 308 < 2 ^ 1024 - 2 ^ 970"
  by simp

lemma not_overflows: "\<bar>x\<bar> \<le> 10 ^ 308 \<Longrightarrow> \<not> overflows x"
  using float_range by (simp add: overflows_def)

lemma small_le: "(10::real) ^ 150 \<le> 10 ^ 308" "(3::real) * 10 ^ 150 \<le> 10 ^ 308"
  "(2::real) * 10 ^ 300 \<le> 10 ^ 308" "(2::real) \<le> 10 ^ 308"
  by simp_all

lemma square_bound: "\<bar>x\<bar> \<le> 10 ^ 150 \<Longrightarrow> x\<^sup>2 \<le> (10::real) ^ 300"
proof -
  assume "\<bar>x\<bar> \<le> 10 ^ 150"
  then have "\<bar>x\<bar>\<^sup>2 \<le> ((10::real) ^ 150)\<^sup>2" by (intro power_mono) simp_all
  then show ?thesis by simp
qed

lemma radius_bound:
  assumes "h\<^sup>2 \<le> (10::real) ^ 300" and "t\<^sup>2 \<le> (10::real) ^ 300"
  shows "sqrt (h\<^sup>2 + t\<^sup>2) \<le> 2 * 10 ^ 150"
proof -
  have "h\<^sup>2 + t\<^sup>2 \<le> (2 * 10 ^ 150)\<^sup>2" using assms by simp
  then show ?thesis by (intro real_le_lsqrt) simp_all
qed

lemma is_finite_cases:
  assumes "is_finite x"
  obtains i where "x = PyInt i" | a where "x = PyFloat (Fin a)"
  using assms by (cases x rule: is_finite.cases) simp_all

lemma as_float_finite:
  "is_finite x \<Longrightarrow> \<not> overflows (real_of x) \<Longrightarrow> as_float x = Inr (Fin (real_of x))"
  by (erule is_finite_cases) (simp_all add: int_to_float_def)

lemma py_add_finite:
  assumes "is_finite x" and "is_finite y"
    and "\<not> overflows (real_of x)" and "\<not> overflows (real_of y)"
    and "\<not> overflows (real_of x + real_of y)"
  shows "\<exists>z. py_add x y = Inr z \<and> is_finite z \<and> real_of z = real_of x + real_of y"
  using assms
  by (elim is_finite_cases) (simp_all add: int_to_float_def to_float_def)

lemma py_sub_finite:
  assumes "is_finite x" and "is_finite y"
    and "\<not> overflows (real_of x)" and "\<not> overflows (real_of y)"
    and "\<not> overflows (real_of x - real_of y)"
  shows "\<exists>z. py_sub x y = Inr z \<and> is_finite z \<and> real_of z = real_of x - real_of y"
  using assms
  by (elim is_finite_cases) (simp_all add: int_to_float_def to_float_def float_sub_def)

lemma two_in_range: "\<not> overflows 2"
  using not_overflows [of 2] by simp

lemma py_truediv_finite:
  assumes "is_finite z" and "\<not> overflows (real_of z / 2)"
  shows "py_truediv z 2 = Inr (Fin (real_of z / 2))"
  using assms two_in_range
  by (elim is_finite_cases) (simp_all add: int_to_float_def to_float_def)

lemma in_range_no_overflow:
  fixes a b c :: real
  assumes "\<bar>a\<bar> \<le> 10 ^ 150" and "\<bar>b\<bar> \<le> 10 ^ 150" and "\<bar>c\<bar> \<le> 10 ^ 150"
  shows "\<not> overflows a" and "\<not> overflows b" and "\<not> overflows c"
    and "\<not> overflows (a + b)" and "\<not> overflows (a - b)"
    and "\<not> overflows ((a + b) / 2)" and "\<not> overflows ((a - b) / 2)"
    and "\<not> overflows (((a - b) / 2)\<^sup>2)" and "\<not> overflows (c\<^sup>2)"
    and "\<not> overflows (((a - b) / 2)\<^sup>2 + c\<^sup>2)"
    and "\<not> overflows ((a + b) / 2 + sqrt (((a - b) / 2)\<^sup>2 + c\<^sup>2))"
    and "\<not> overflows ((a + b) / 2 - sqrt (((a - b) / 2)\<^sup>2 + c\<^sup>2))"
proof -
  define B :: real where "B = 10 ^ 150"
  define S :: real where "S = 10 ^ 300"
  define M :: real where "M = 10 ^ 308"
  let ?r = "sqrt (((a - b) / 2)\<^sup>2 + c\<^sup>2)"
  have pos: "0 \<le> B" "3 * B \<le> M" "0 \<le> S" "2 * S \<le> M"
    by (simp_all add: B_def S_def M_def)
  have nov: "\<And>x. \<bar>x\<bar> \<le> M \<Longrightarrow> \<not> overflows x"
    unfolding M_def by (rule not_overflows)
  have sq: "\<And>x. \<bar>x\<bar> \<le> B \<Longrightarrow> x\<^sup>2 \<le> S"
    unfolding B_def S_def by (rule square_bound)
  have rad: "\<And>h t. h\<^sup>2 \<le> S \<Longrightarrow> t\<^sup>2 \<le> S \<Longrightarrow> sqrt (h\<^sup>2 + t\<^sup>2) \<le> 2 * B"
    unfolding B_def S_def by (rule radius_bound)
  have bnd: "\<bar>a\<bar> \<le> B" "\<bar>b\<bar> \<le> B" "\<bar>c\<bar> \<le> B"
    unfolding B_def using assms by blast+
  have half: "\<bar>(a - b) / 2\<bar> \<le> B"
    using bnd by argo
  have mean: "\<bar>(a + b) / 2\<bar> \<le> B"
    using bnd by argo
  have hsq: "((a - b) / 2)\<^sup>2 \<le> S" using half by (rule sq)
  have csq: "c\<^sup>2 \<le> S" using bnd(3) by (rule sq)
  have r: "0 \<le> ?r" "?r \<le> 2 * B"
    using rad [OF hsq csq] by simp_all
  show "\<not> overflows a" "\<not> overflows b" "\<not> overflows c"
    using bnd pos by (auto intro!: nov)
  show "\<not> overflows (a + b)" using bnd pos by (intro nov) argo
  show "\<not> overflows (a - b)" using bnd pos by (intro nov) argo
  show "\<not> overflows ((a + b) / 2)" using mean pos by (intro nov) argo
  show "\<not> overflows ((a - b) / 2)" using half pos by (intro nov) argo
  have "0 \<le> ((a - b) / 2)\<^sup>2" "0 \<le> c\<^sup>2" by simp_all
  then show "\<not> overflows (((a - b) / 2)\<^sup>2)" "\<not> overflows (c\<^sup>2)"
    "\<not> overflows (((a - b) / 2)\<^sup>2 + c\<^sup>2)"
    using hsq csq pos by (auto intro!: nov)
  show "\<not> overflows ((a + b) / 2 + ?r)" using mean r pos by (intro nov) argo
  show "\<not> overflows ((a + b) / 2 - ?r)" using mean r pos by (intro nov) argo
qed

lemma sqrt_argument_finite:
  assumes "in_range sx" and "in_range sy" and "in_range t"
  shows "sqrt_argument sx sy t =
           Inr (Fin (((real_of sx - real_of sy) / 2)\<^sup>2 + (real_of t)\<^sup>2))"
proof -
  let ?a = "real_of sx" and ?b = "real_of sy" and ?c = "real_of t"
  from assms have fin: "is_finite sx" "is_finite sy" "is_finite t"
    and bnd: "\<bar>?a\<bar> \<le> 10 ^ 150" "\<bar>?b\<bar> \<le> 10 ^ 150" "\<bar>?c\<bar> \<le> 10 ^ 150"
    unfolding in_range_def by blast+
  note o = in_range_no_overflow [OF bnd]
  obtain d where d: "py_sub sx sy = Inr d" "is_finite d" "real_of d = ?a - ?b"
    using py_sub_finite [OF fin(1) fin(2) o(1) o(2) o(5)] by blast
  have h: "py_truediv d 2 = Inr (Fin ((?a - ?b) / 2))"
    using py_truediv_finite [OF d(2)] o(7) d(3) by simp
  have "\<exists>q. py_pow2 t = Inr q \<and> as_float q = Inr (Fin (?c\<^sup>2))"
    using fin(3) o(9) by (elim is_finite_cases) (simp_all add: int_to_float_def)
  then obtain q where q: "py_pow2 t = Inr q" "as_float q = Inr (Fin (?c\<^sup>2))" by blast
  show ?thesis
    using o(8) o(10) by (simp add: sqrt_argument_def d(1) h q to_float_def)
qed

lemma stress_state_py_finite:
  assumes "in_range sx" and "in_range sy" and "in_range t"
  shows "stress_state_py sx sy t =
     Inr \<lparr>center_f = (Fin ((real_of sx + real_of sy) / 2), Fin 0),
          radius_f = Fin (sqrt (((real_of sx - real_of sy) / 2)\<^sup>2 + (real_of t)\<^sup>2)),
          max_normal_stress_f = Fin ((real_of sx + real_of sy) / 2
            + sqrt (((real_of sx - real_of sy) / 2)\<^sup>2 + (real_of t)\<^sup>2)),
          min_normal_stress_f = Fin ((real_of sx + real_of sy) / 2
            - sqrt (((real_of sx - real_of sy) / 2)\<^sup>2 + (real_of t)\<^sup>2)),
          max_shear_stress_f =
            Fin (sqrt (((real_of sx - real_of sy) / 2)\<^sup>2 + (real_of t)\<^sup>2))\<rparr>"
proof -
  let ?a = "real_of sx" and ?b = "real_of sy" and ?c = "real_of t"
  from assms have fin: "is_finite sx" "is_finite sy" "is_finite t"
    and bnd: "\<bar>?a\<bar> \<le> 10 ^ 150" "\<bar>?b\<bar> \<le> 10 ^ 150" "\<bar>?c\<bar> \<le> 10 ^ 150"
    unfolding in_range_def by blast+
  note o = in_range_no_overflow [OF bnd]
  obtain s where s: "py_add sx sy = Inr s" "is_finite s" "real_of s = ?a + ?b"
    using py_add_finite [OF fin(1) fin(2) o(1) o(2) o(4)] by blast
  have m: "py_truediv s 2 = Inr (Fin ((?a + ?b) / 2))"
    using py_truediv_finite [OF s(2)] o(6) s(3) by simp
  have neg: "\<not> ((?a - ?b) / 2)\<^sup>2 + ?c\<^sup>2 < 0"
    using sqrt_arg_nonneg [of ?a ?b ?c] by linarith
  show ?thesis
    using o(11) o(12) neg
    by (simp add: stress_state_py_def s(1) m sqrt_argument_finite [OF assms] Let_def
        to_float_def float_sub_def)
qed

lemma int_to_float_error: "int_to_float i = Inl e \<Longrightarrow> e = OverflowError"
  by (simp add: int_to_float_def split: if_splits)

lemma as_float_error: "as_float x = Inl e \<Longrightarrow> e = OverflowError"
  by (cases x) (simp_all add: int_to_float_error)

lemma py_add_error: "py_add x y = Inl e \<Longrightarrow> e = OverflowError"
  by (cases x; cases y) (auto split: sum.splits dest: as_float_error int_to_float_error)

lemma py_sub_error: "py_sub x y = Inl e \<Longrightarrow> e = OverflowError"
  by (cases x; cases y) (auto split: sum.splits dest: as_float_error int_to_float_error)

lemma py_truediv_error: "py_truediv x 2 = Inl e \<Longrightarrow> e = OverflowError"
  by (cases x) (auto split: sum.splits if_splits dest: int_to_float_error)

lemma float_pow2_error: "float_pow2 x = Inl e \<Longrightarrow> e = OverflowError"
  by (cases x) (simp_all split: if_splits)

lemma py_pow2_error: "py_pow2 x = Inl e \<Longrightarrow> e = OverflowError"
  by (cases x) (auto split: sum.splits dest: float_pow2_error)

lemma sqrt_argument_error: "sqrt_argument sx sy t = Inl e \<Longrightarrow> e = OverflowError"
  unfolding sqrt_argument_def
  by (auto split: sum.splits
      dest: py_sub_error py_truediv_error float_pow2_error py_pow2_error as_float_error)

lemma stress_state_py_error: "stress_state_py sx sy t = Inl e \<Longrightarrow> e = OverflowError"
  unfolding stress_state_py_def
  by (auto simp: Let_def split: sum.splits
      dest: py_add_error py_truediv_error sqrt_argument_error)

lemma overflows_nonzero: "overflows x \<Longrightarrow> 0 \<le> x \<Longrightarrow> 0 < x"
  by (simp add: overflows_def)

lemma to_float_not_nan: "to_float x \<noteq> NaN"
  by (simp add: to_float_def)

lemma to_float_domain: "0 \<le> x \<Longrightarrow> in_sqrt_domain (to_float x)"
  by (simp add: to_float_def overflows_nonzero)

lemma py_sub_not_nan:
  assumes "is_finite x" and "is_finite y" and "py_sub x y = Inr d"
  shows "d \<noteq> PyFloat NaN"
  using assms
  by (elim is_finite_cases)
    (auto simp: int_to_float_def float_sub_def to_float_not_nan split: if_splits)

lemma py_truediv_not_nan:
  assumes "d \<noteq> PyFloat NaN" and "py_truediv d 2 = Inr h"
  shows "h \<noteq> NaN"
proof (cases d)
  case (PyInt i)
  then show ?thesis using assms by (auto split: if_splits)
next
  case (PyFloat x)
  then show ?thesis using assms
    by (cases x) (auto simp: to_float_not_nan split: if_splits sum.splits)
qed

lemma float_pow2_domain:
  assumes "h \<noteq> NaN" and "float_pow2 h = Inr q"
  shows "in_sqrt_domain q"
  using assms by (cases h) (auto split: if_splits)

lemma py_pow2_as_float:
  assumes "is_finite t" and "py_pow2 t = Inr q" and "as_float q = Inr tf"
  shows "\<exists>c. tf = Fin c \<and> 0 \<le> c"
  using assms
  by (elim is_finite_cases) (auto simp: int_to_float_def split: if_splits)

lemma float_add_domain:
  assumes "in_sqrt_domain q" and "0 \<le> c"
  shows "in_sqrt_domain (float_add q (Fin c))"
  using assms by (cases q) (simp_all add: to_float_domain)

lemma sqrt_argument_domain:
  assumes "is_finite sx" and "is_finite sy" and "is_finite t"
    and "sqrt_argument sx sy t = Inr y"
  shows "in_sqrt_domain y"
proof -
  from assms(4) obtain d h hsq q tf
    where d: "py_sub sx sy = Inr d" and h: "py_truediv d 2 = Inr h"
      and hsq: "float_pow2 h = Inr hsq" and q: "py_pow2 t = Inr q"
      and tf: "as_float q = Inr tf" and y: "y = float_add hsq tf"
    unfolding sqrt_argument_def by (auto split: sum.splits)
  have "h \<noteq> NaN"
    using py_truediv_not_nan [OF py_sub_not_nan [OF assms(1) assms(2) d] h] .
  then have dom: "in_sqrt_domain hsq" using hsq by (rule float_pow2_domain)
  obtain c where c: "tf = Fin c" "0 \<le> c"
    using py_pow2_as_float [OF assms(3) q tf] by blast
  show ?thesis unfolding y c(1) using dom c(2) by (rule float_add_domain)
qed

text \<open>
  C8, as stated, fails: the inputs are not constrained in magnitude, and the float
  \<open>10 ^ 200\<close> makes the power on line 49 raise \<^verbatim>\<open>OverflowError\<close>, as the integer
  \<open>10 ^ 400\<close> makes the division on line 48.
\<close>

theorem overflow_error_reached:
  "stress_state_py (PyFloat (Fin (10 ^ 200))) (PyInt 0) (PyInt 0) = Inl OverflowError
   \<and> stress_state_py (PyInt (10 ^ 400)) (PyInt 0) (PyInt 0) = Inl OverflowError"
  by (simp add: stress_state_py_def sqrt_argument_def int_to_float_def to_float_def
      float_sub_def overflows_def)

text \<open>
  C8, amended: for integers and finite floats of magnitude at most \<open>10 ^ 150\<close>, of either
  sign, the computation is total: it returns finite values, those of the formulas.
  For inputs of any magnitude it never divides by zero, the only error it can reach
  being \<^verbatim>\<open>OverflowError\<close>; and for finite inputs the argument of the square root,
  when line 49 gets that far, is in the domain of the square root.
\<close>

theorem stress_state_py_total:
  "(in_range sx \<and> in_range sy \<and> in_range t \<longrightarrow>
      stress_state_py sx sy t =
        Inr \<lparr>center_f = (Fin ((real_of sx + real_of sy) / 2), Fin 0),
             radius_f = Fin (sqrt (((real_of sx - real_of sy) / 2)\<^sup>2 + (real_of t)\<^sup>2)),
             max_normal_stress_f = Fin ((real_of sx + real_of sy) / 2
               + sqrt (((real_of sx - real_of sy) / 2)\<^sup>2 + (real_of t)\<^sup>2)),
             min_normal_stress_f = Fin ((real_of sx + real_of sy) / 2
               - sqrt (((real_of sx - real_of sy) / 2)\<^sup>2 + (real_of t)\<^sup>2)),
             max_shear_stress_f =
               Fin (sqrt (((real_of sx - real_of sy) / 2)\<^sup>2 + (real_of t)\<^sup>2))\<rparr>)
   \<and> stress_state_py sx sy t \<noteq> Inl ZeroDivisionError
   \<and> (is_finite sx \<and> is_finite sy \<and> is_finite t \<longrightarrow>
        (case sqrt_argument sx sy t of
           Inl e \<Rightarrow> e = OverflowError
         | Inr y \<Rightarrow> in_sqrt_domain y))"
proof (intro conjI impI)
  assume "in_range sx \<and> in_range sy \<and> in_range t"
  then show "stress_state_py sx sy t =
        Inr \<lparr>center_f = (Fin ((real_of sx + real_of sy) / 2), Fin 0),
             radius_f = Fin (sqrt (((real_of sx - real_of sy) / 2)\<^sup>2 + (real_of t)\<^sup>2)),
             max_normal_stress_f = Fin ((real_of sx + real_of sy) / 2
               + sqrt (((real_of sx - real_of sy) / 2)\<^sup>2 + (real_of t)\<^sup>2)),
             min_normal_stress_f = Fin ((real_of sx + real_of sy) / 2
               - sqrt (((real_of sx - real_of sy) / 2)\<^sup>2 + (real_of t)\<^sup>2)),
             max_shear_stress_f =
               Fin (sqrt (((real_of sx - real_of sy) / 2)\<^sup>2 + (real_of t)\<^sup>2))\<rparr>"
    by (intro stress_state_py_finite) simp_all
next
  show "stress_state_py sx sy t \<noteq> Inl ZeroDivisionError"
    using stress_state_py_error [of sx sy t ZeroDivisionError] by auto
next
  assume "is_finite sx \<and> is_finite sy \<and> is_finite t"
  then show "case sqrt_argument sx sy t of
           Inl e \<Rightarrow> e = OverflowError
         | Inr y \<Rightarrow> in_sqrt_domain y"
    by (auto split: sum.splits intro: sqrt_argument_error sqrt_argument_domain)
qed

theorem stress_state_py_total_witness:
  "in_range (PyInt 90) \<and> in_range (PyInt (- 60)) \<and> in_range (PyInt 20)
   \<and> stress_state_py (PyInt 90) (PyInt (- 60)) (PyInt 20) =
       Inr \<lparr>center_f = (Fin 15, Fin 0), radius_f = Fin (sqrt 6025),
            max_normal_stress_f = Fin (15 + sqrt 6025),
            min_normal_stress_f = Fin (15 - sqrt 6025),
            max_shear_stress_f = Fin (sqrt 6025)\<rparr>
   \<and> is_finite (PyInt 90) \<and> is_finite (PyInt (- 60)) \<and> is_finite (PyInt 20)
   \<and> sqrt_argument (PyInt 90) (PyInt (- 60)) (PyInt 20) = Inr (Fin 6025)
   \<and> in_sqrt_domain (Fin 6025)"
proof -
  have r: "in_range (PyInt 90)" "in_range (PyInt (- 60))" "in_range (PyInt 20)"
    by (simp_all add: in_range_def)
  have a: "sqrt_argument (PyInt 90) (PyInt (- 60)) (PyInt 20) = Inr (Fin 6025)"
    using sqrt_argument_finite [OF r] by simp
  show ?thesis
    using r a stress_state_py_total [of "PyInt 90" "PyInt (- 60)" "PyInt 20"] by simp
qed

section \<open>Properties of the plot\<close>

lemma half_diff_sq: "((a - b) / 2)\<^sup>2 = ((b - a) / 2 :: real)\<^sup>2"
  by (simp add: power2_eq_square field_simps)

lemma line_points_plot:
  "line_points (plot_msc self v) =
     [(sigmax self, shear_stress self), center v, (sigmay self, - shear_stress self)]"
  by (simp add: line_points_def plot_msc_def Let_def)

lemma line_tau_plot:
  "line_tau (plot_msc self v) = [shear_stress self, snd (center v), - shear_stress self]"
  by (simp add: plot_msc_def Let_def)

text \<open>
  C5: with the two normal stresses exchanged the centre and the radius are the same.
  The red line of the original run is \<open>(sigmax, shear)\<close>, centre, \<open>(sigmay, - shear)\<close>;
  that of the exchanged run is \<open>(sigmay, shear)\<close>, centre, \<open>(sigmax, - shear)\<close>. So the
  end point whose normal stress is \<open>sigmax\<close> is drawn with \<open>shear\<close> before and with
  \<open>- shear\<close> after the exchange, and the end point whose normal stress is \<open>sigmay\<close>
  with \<open>- shear\<close> before and with \<open>shear\<close> after it; the list of shear values itself,
  \<open>shear, 0, - shear\<close>, is the same in both runs.
\<close>

theorem swap_normal_stresses:
  "\<exists>v v'. stress_state self = Inr v
     \<and> stress_state \<lparr>sigmax = sigmay self, sigmay = sigmax self,
          shear_stress = shear_stress self\<rparr> = Inr v'
     \<and> center v' = center v
     \<and> radius v' = radius v
     \<and> line_points (plot_msc self v) =
         [(sigmax self, shear_stress self), center v, (sigmay self, - shear_stress self)]
     \<and> line_points (plot_msc \<lparr>sigmax = sigmay self, sigmay = sigmax self,
          shear_stress = shear_stress self\<rparr> v') =
         [(sigmay self, shear_stress self), center v, (sigmax self, - shear_stress self)]
     \<and> line_tau (plot_msc \<lparr>sigmax = sigmay self, sigmay = sigmax self,
          shear_stress = shear_stress self\<rparr> v') = line_tau (plot_msc self v)
     \<and> line_points (plot_msc \<lparr>sigmax = sigmay self, sigmay = sigmax self,
          shear_stress = shear_stress self\<rparr> v')
         = rev (map (\<lambda>(s, t). (s, - t)) (line_points (plot_msc self v)))"
  by (simp add: stress_state_Inr line_points_plot line_tau_plot add.commute
      half_diff_sq [of "sigmay self"])

lemma endpoint_dist:
  "sqrt ((a - (a + b) / 2)\<^sup>2 + t\<^sup>2) = sqrt (((a - b) / 2)\<^sup>2 + (t::real)\<^sup>2)"
  "sqrt ((b - (a + b) / 2)\<^sup>2 + t\<^sup>2) = sqrt (((a - b) / 2)\<^sup>2 + (t::real)\<^sup>2)"
  by (simp_all add: power2_eq_square field_simps)

lemma diameter_length:
  "sqrt ((a - b)\<^sup>2 + 4 * t\<^sup>2) = 2 * sqrt (((a - b) / 2)\<^sup>2 + (t::real)\<^sup>2)"
proof -
  have "(a - b)\<^sup>2 + 4 * t\<^sup>2 = 2\<^sup>2 * (((a - b) / 2)\<^sup>2 + t\<^sup>2)"
    by (simp add: power2_eq_square field_simps)
  then show ?thesis
    by (simp only: real_sqrt_mult real_sqrt_abs abs_numeral)
qed

text \<open>
  C10: the red line runs from \<open>(sigmax, shear)\<close> through the centre to
  \<open>(sigmay, - shear)\<close>. Both end points are at distance \<open>radius\<close> from the centre, the
  centre is their midpoint, and they are \<open>2 * radius\<close> apart: the line is a diameter
  of the circle.
\<close>

theorem line_is_diameter:
  "\<exists>v. stress_state self = Inr v
     \<and> line_points (plot_msc self v) =
         [(sigmax self, shear_stress self), center v, (sigmay self, - shear_stress self)]
     \<and> distance (sigmax self, shear_stress self) (center v) = radius v
     \<and> distance (sigmay self, - shear_stress self) (center v) = radius v
     \<and> fst (center v) = (sigmax self + sigmay self) / 2
     \<and> snd (center v) = (shear_stress self + (- shear_stress self)) / 2
     \<and> distance (sigmax self, shear_stress self) (sigmay self, - shear_stress self)
         = 2 * radius v"
  by (simp add: stress_state_Inr line_points_plot distance_def endpoint_dist diameter_length)

lemma linspace_unit_step:
  assumes "2 \<le> n" and "stop - start = real (n - 1)"
  shows "linspace start stop n = map (\<lambda>i. start + real i) [0..<n]"
  using assms by (simp add: linspace_def)

lemma linspace_degrees: "linspace 0 360 361 = map real [0..<361]"
proof -
  have "linspace 0 360 361 = map (\<lambda>i. 0 + real i) [0..<361]"
    by (rule linspace_unit_step) simp_all
  then show ?thesis by (simp only: add_0)
qed

lemma zip_map_same: "zip (map f xs) (map g xs) = map (\<lambda>x. (f x, g x)) xs"
  by (induction xs) simp_all

lemma circle_points_plot:
  "circle_points (plot_msc self v) =
     map (\<lambda>d. (fst (center v) + radius v * cos (d * (2 * pi / 360)),
                radius v * sin (d * (2 * pi / 360))))
       (linspace 0 360 361)"
  by (simp only: circle_points_def plot_msc_def Let_def msc_plot.simps zip_map_same list.map_comp
      comp_def)

text \<open>
  C7: the circle is sampled at the 361 angles of 0, 1, ..., 360 degrees, and the point
  drawn for the angle of \<open>k\<close> degrees is
  \<open>(center + radius * cos \<theta>, radius * sin \<theta>)\<close> with \<open>\<theta> = k * pi / 180\<close>.
\<close>

theorem circle_sampling:
  "linspace 0 360 361 = map real [0..<361]
   \<and> length (circle_points (plot_msc self v)) = 361
   \<and> circle_points (plot_msc self v) =
       map (\<lambda>k. (fst (center v) + radius v * cos (real k * pi / 180),
                  radius v * sin (real k * pi / 180)))
         [0..<361]"
proof -
  have deg: "\<And>d::real. d * (2 * pi / 360) = d * pi / 180"
    by simp
  have pts: "circle_points (plot_msc self v) =
       map (\<lambda>k. (fst (center v) + radius v * cos (real k * pi / 180),
                  radius v * sin (real k * pi / 180)))
         [0..<361]"
    by (simp only: circle_points_plot linspace_degrees list.map_comp comp_def deg)
  have "length (circle_points (plot_msc self v)) = 361"
    by (simp only: pts length_map length_upt)
  with pts linspace_degrees show ?thesis by blast
qed

section \<open>The example of the script\<close>

lemma rint_lower_half: "of_int n \<le> x \<Longrightarrow> x < of_int n + 1 / 2 \<Longrightarrow> rint x = n"
proof -
  assume a: "of_int n \<le> x" and b: "x < of_int n + 1 / 2"
  have "\<lfloor>x\<rfloor> = n" using a b by (intro floor_unique) linarith+
  then show ?thesis using b by (simp add: rint_def Let_def)
qed

lemma rint_upper_half: "of_int n - 1 / 2 < x \<Longrightarrow> x < of_int n \<Longrightarrow> rint x = n"
proof -
  assume a: "of_int n - 1 / 2 < x" and b: "x < of_int n"
  have "\<lfloor>x\<rfloor> = n - 1" using a b by (intro floor_unique) (simp, linarith)+
  then show ?thesis using a b by (simp add: rint_def Let_def)
qed

lemma rint_of_int: "rint (of_int n) = n"
  by (simp add: rint_def)

lemma sqrt_6025_lower: "7762 / 100 < sqrt 6025"
  by (rule real_less_rsqrt) (simp add: power2_eq_square)

lemma sqrt_6025_upper: "sqrt 6025 < 77625 / 1000"
  by (rule real_less_lsqrt) (simp_all add: power2_eq_square)

lemma example_values:
  "stress_state \<lparr>sigmax = 90, sigmay = - 60, shear_stress = 20\<rparr> =
     Inr \<lparr>center = (15, 0), radius = sqrt 6025, max_normal_stress = 15 + sqrt 6025,
          min_normal_stress = 15 - sqrt 6025, max_shear_stress = sqrt 6025\<rparr>"
  by (simp add: stress_state_Inr)

lemma round_sqrt_6025: "np_round (sqrt 6025) 2 = 7762 / 100"
proof -
  have "rint (sqrt 6025 * 100) = 7762"
    using sqrt_6025_lower sqrt_6025_upper by (intro rint_lower_half) simp_all
  then show ?thesis by (simp add: np_round_def)
qed

lemma round_max_example: "np_round (15 + sqrt 6025) 2 = 9262 / 100"
proof -
  have "rint ((15 + sqrt 6025) * 100) = 9262"
    using sqrt_6025_lower sqrt_6025_upper by (intro rint_lower_half) simp_all
  then show ?thesis by (simp add: np_round_def)
qed

lemma round_min_example: "np_round (15 - sqrt 6025) 2 = - 6262 / 100"
proof -
  have "rint ((15 - sqrt 6025) * 100) = - 6262"
    using sqrt_6025_lower sqrt_6025_upper by (intro rint_upper_half) simp_all
  then show ?thesis by (simp add: np_round_def)
qed

lemma round_int_example:
  "np_round 90 2 = 90" "np_round (- 60) 2 = - 60" "np_round 20 2 = 20"
  "np_round 15 2 = 15" "np_round 0 2 = 0"
  using rint_of_int [of 9000] rint_of_int [of "- 6000"] rint_of_int [of 2000]
    rint_of_int [of 1500] rint_of_int [of 0]
  by (simp_all add: np_round_def)

text \<open>
  C4, as stated, fails: for the inputs 90, -60 and 20 the radius \<open>sqrt 6025\<close> lies below
  77.625, so its rounding to two decimals is not 77.63, and the roundings of the maximum
  and the minimum normal stress are not 92.63 and -62.63.
\<close>

theorem example_not_77_63:
  "np_round (radius (projr (stress_state \<lparr>sigmax = 90, sigmay = - 60, shear_stress = 20\<rparr>))) 2
     \<noteq> 7763 / 100
   \<and> np_round (max_normal_stress
        (projr (stress_state \<lparr>sigmax = 90, sigmay = - 60, shear_stress = 20\<rparr>))) 2
     \<noteq> 9263 / 100
   \<and> np_round (min_normal_stress
        (projr (stress_state \<lparr>sigmax = 90, sigmay = - 60, shear_stress = 20\<rparr>))) 2
     \<noteq> - 6263 / 100
   \<and> radius (projr (stress_state \<lparr>sigmax = 90, sigmay = - 60, shear_stress = 20\<rparr>))
     < 77625 / 1000"
  using sqrt_6025_upper
  by (simp add: example_values round_sqrt_6025 round_max_example round_min_example)

text \<open>
  C4, amended: for the inputs 90, -60 and 20 the centre is \<open>(15, 0)\<close>, the radius is
  \<open>sqrt (75\<^sup>2 + 20\<^sup>2)\<close>, and the report shows, to two decimals, the radius 77.62, the
  maximum normal stress 92.62, the minimum normal stress -62.62 and the maximum shear
  stress 77.62.
\<close>

theorem example_rounds_to_77_62:
  "\<exists>v rep p. circle = Inr (v, rep, p)
     \<and> center v = (15, 0)
     \<and> radius v = sqrt (75\<^sup>2 + 20\<^sup>2)
     \<and> rep = [(''Sigma X'', [90]), (''Sigma Y'', [- 60]), (''Shear Stress'', [20]),
              (''Center'', [15, 0]), (''Radius'', [7762 / 100]),
              (''Maximum normal stress'', [9262 / 100]),
              (''Minimum normal stress'', [- 6262 / 100]),
              (''Maximum shear stress'', [7762 / 100])]"
  by (simp add: circle_def init_def example_values disp_stress_state_def round_sqrt_6025
      round_max_example round_min_example round_int_example)

end
